theory Spec2Isabelle
  imports Complex_Main "HOL-Library.AList" "HOL-Library.Word"
begin

section \<open>Object model\<close>

text \<open>
  Go errors are compared and reported by their message, so an error is its message.
  A byte is an 8-bit word.
\<close>

type_synonym error = string

type_synonym byte = "8 word"

text \<open>
  Modelled from the spec: the declarations of the object kinds (\<open>PdfObjectNull\<close>,
  \<open>PdfObjectName\<close>, \<open>PdfObjectArray\<close>, ...) are not among the source files; the closed
  variant set is the one of the data model (Null, Boolean, Number, String, Name,
  Reference, Array, Dictionary, Stream). A dictionary keeps its entries in insertion
  order, so it is an association list from names to values.
\<close>

datatype PdfObject =
    PdfObjectNull
  | PdfObjectBool bool
  | PdfObjectInteger int
  | PdfObjectFloat real
  | PdfObjectString string
  | PdfObjectName string
  | PdfObjectReference int int
  | PdfObjectArray "PdfObject list"
  | PdfObjectDict "(string \<times> PdfObject) list"
  | PdfObjectStreamValue "(string \<times> PdfObject) list" "byte list"

type_synonym Dictionary = "(string \<times> PdfObject) list"

text \<open>
  Modelled from the spec: the dictionary's \<open>Get\<close> method is not among the source files.
  It looks a name up; a missing key gives Go's nil, here \<open>None\<close>.
\<close>

definition Dictionary_Get :: "Dictionary \<Rightarrow> string \<Rightarrow> PdfObject option" where
  "Dictionary_Get d key = map_of d key"

text \<open>
  Modelled from the spec: the dictionary's \<open>Set\<close> method is not among the source files.
  It overwrites the value of a key that is present and appends a new key otherwise.
\<close>

definition Dictionary_Set :: "Dictionary \<Rightarrow> string \<Rightarrow> PdfObject \<Rightarrow> Dictionary" where
  "Dictionary_Set d key val = AList.update key val d"

text \<open>
  Modelled from the spec: \<open>MakeInteger\<close> is not among the source files. It builds the
  literal Integer object of a 64-bit value. The only arguments the code passes are
  \<open>0\<close> and the length of a byte slice, which always fit.
\<close>

definition MakeInteger :: "int \<Rightarrow> PdfObject" where
  "MakeInteger v = PdfObjectInteger v"

text \<open>
  The stream object of the source: the embedded dictionary and the raw payload
  \<open>Stream\<close>. The functions below receive a pointer to it and update it in place; the
  model passes the object in and returns the updated one.
\<close>

record PdfObjectStream =
  PdfObjectDictionary :: Dictionary
  Stream :: "byte list"

section \<open>Encoders\<close>

text \<open>
  Modelled from the spec: the encoder types are not among the source files. An encoder
  is one of Raw, Flate, LZW (with its early-change parameter), DCT, RunLength, ASCIIHex,
  ASCII85, CCITTFax, JBIG2, JPX and Multi (an ordered sequence of encoders). The
  parameters a codec keeps for itself are opaque here (type \<open>'p\<close>).
\<close>

record 'p LZWEncoder =
  EarlyChange :: int
  lzw_params :: 'p

datatype 'p StreamEncoder =
    RawEncoder
  | FlateEncoder 'p
  | LZWEnc "'p LZWEncoder"
  | DCTEncoder 'p
  | RunLengthEncoder 'p
  | ASCIIHexEncoder
  | ASCII85Encoder
  | CCITTFaxEncoder
  | JBIG2Encoder
  | JPXEncoder
  | MultiEncoder "'p StreamEncoder list"

text \<open>
  The codec boundary. The constructors that read a filter's own parameters from the
  stream dictionary (called with the stream and a nil parameter dictionary) and the
  codecs' \<open>EncodeBytes\<close> and \<open>DecodeStream\<close> operations are external collaborators whose
  code is not among the source files: they are parameters of the model, each returning
  an error or a value as the Go functions do.
\<close>

record 'p Codecs =
  newFlateEncoderFromStream :: "PdfObjectStream \<Rightarrow> error + 'p"
  newLZWEncoderFromStream :: "PdfObjectStream \<Rightarrow> error + 'p LZWEncoder"
  newDCTEncoderFromStream :: "PdfObjectStream \<Rightarrow> error + 'p"
  newRunLengthEncoderFromStream :: "PdfObjectStream \<Rightarrow> error + 'p"
  newMultiEncoderFromStream :: "PdfObjectStream \<Rightarrow> error + 'p StreamEncoder list"
  EncodeBytes :: "'p StreamEncoder \<Rightarrow> byte list \<Rightarrow> error + byte list"
  DecodeStream_of :: "'p StreamEncoder \<Rightarrow> PdfObjectStream \<Rightarrow> error + byte list"

text \<open>
  Modelled from the spec: the constants \<open>StreamEncodingFilterName...\<close> are not among the
  source files. Their values are the names of the nine filters the selector dispatches
  on, as the document format spells them.
\<close>

definition StreamEncodingFilterNameFlate :: string where
  "StreamEncodingFilterNameFlate = ''FlateDecode''"

definition StreamEncodingFilterNameLZW :: string where
  "StreamEncodingFilterNameLZW = ''LZWDecode''"

definition StreamEncodingFilterNameDCT :: string where
  "StreamEncodingFilterNameDCT = ''DCTDecode''"

definition StreamEncodingFilterNameRunLength :: string where
  "StreamEncodingFilterNameRunLength = ''RunLengthDecode''"

definition StreamEncodingFilterNameASCIIHex :: string where
  "StreamEncodingFilterNameASCIIHex = ''ASCIIHexDecode''"

definition StreamEncodingFilterNameASCII85 :: string where
  "StreamEncodingFilterNameASCII85 = ''ASCII85Decode''"

definition StreamEncodingFilterNameCCITTFax :: string where
  "StreamEncodingFilterNameCCITTFax = ''CCITTFaxDecode''"

definition StreamEncodingFilterNameJBIG2 :: string where
  "StreamEncodingFilterNameJBIG2 = ''JBIG2Decode''"

definition StreamEncodingFilterNameJPX :: string where
  "StreamEncodingFilterNameJPX = ''JPXDecode''"

definition supported_filter_names :: "string list" where
  "supported_filter_names =
     [StreamEncodingFilterNameFlate, StreamEncodingFilterNameLZW,
      StreamEncodingFilterNameDCT, StreamEncodingFilterNameRunLength,
      StreamEncodingFilterNameASCIIHex, StreamEncodingFilterNameASCII85,
      StreamEncodingFilterNameCCITTFax, StreamEncodingFilterNameJBIG2,
      StreamEncodingFilterNameJPX]"

section \<open>Filter selection: NewEncoderFromStream\<close>

text \<open>
  A Go call either returns or panics. \<open>Panic e\<close> is the call that ends in
  \<open>panic(e)\<close>: the process terminates unless some caller recovers.
\<close>

datatype 'a outcome = Panic error | Returned 'a

text \<open>
  A constructor that returns \<open>(encoder, error)\<close>, followed by the wrapping of its
  encoder into the interface value.
\<close>

definition wrap :: "('a \<Rightarrow> 'p StreamEncoder) \<Rightarrow> error + 'a \<Rightarrow> (error + 'p StreamEncoder) outcome" where
  "wrap c r = (case r of Inl e \<Rightarrow> Returned (Inl e) | Inr x \<Rightarrow> Returned (Inr (c x)))"

text \<open>
  The conditional chain on the filter name (the last part of \<open>NewEncoderFromStream\<close>),
  reached with the bare Name of the \<open>Filter\<close> entry or with the single member of a
  one-element array. The final branch builds the error, logs it and panics; its
  \<open>return nil, err\<close> is unreachable.
\<close>

definition encoderForMethod ::
  "'p Codecs \<Rightarrow> PdfObjectStream \<Rightarrow> string \<Rightarrow> (error + 'p StreamEncoder) outcome" where
  "encoderForMethod cs streamObj method =
     (if method = StreamEncodingFilterNameFlate then
        wrap FlateEncoder (newFlateEncoderFromStream cs streamObj)
      else if method = StreamEncodingFilterNameLZW then
        wrap LZWEnc (newLZWEncoderFromStream cs streamObj)
      else if method = StreamEncodingFilterNameDCT then
        wrap DCTEncoder (newDCTEncoderFromStream cs streamObj)
      else if method = StreamEncodingFilterNameRunLength then
        wrap RunLengthEncoder (newRunLengthEncoderFromStream cs streamObj)
      else if method = StreamEncodingFilterNameASCIIHex then Returned (Inr ASCIIHexEncoder)
      else if method = StreamEncodingFilterNameASCII85 then Returned (Inr ASCII85Encoder)
      else if method = StreamEncodingFilterNameCCITTFax then Returned (Inr CCITTFaxEncoder)
      else if method = StreamEncodingFilterNameJBIG2 then Returned (Inr JBIG2Encoder)
      else if method = StreamEncodingFilterNameJPX then Returned (Inr JPXEncoder)
      else Panic (''Unsupported encoding method ('' @ method @ '')''))"

definition NewEncoderFromStream ::
  "'p Codecs \<Rightarrow> PdfObjectStream \<Rightarrow> (error + 'p StreamEncoder) outcome" where
  "NewEncoderFromStream cs streamObj =
     (case Dictionary_Get (PdfObjectDictionary streamObj) ''Filter'' of
        None \<Rightarrow> Returned (Inr RawEncoder)
      | Some PdfObjectNull \<Rightarrow> Returned (Inr RawEncoder)
      | Some (PdfObjectName method) \<Rightarrow> encoderForMethod cs streamObj method
      | Some (PdfObjectArray array) \<Rightarrow>
          (if length array = 0 then Returned (Inr RawEncoder)
           else if length array \<noteq> 1 then
             wrap MultiEncoder (newMultiEncoderFromStream cs streamObj)
           else
             (case array ! 0 of
                PdfObjectName method \<Rightarrow> encoderForMethod cs streamObj method
              | _ \<Rightarrow> Returned (Inl ''Filter array member not a Name object'')))
      | Some _ \<Rightarrow> Returned (Inl ''Filter not a Name or Array object''))"

section \<open>Stream codec pipeline: DecodeStream and EncodeStream\<close>

text \<open>
  \<open>DecodeStream\<close> selects the encoder and calls its decode operation; it does not
  write to the stream object.
\<close>

definition DecodeStream :: "'p Codecs \<Rightarrow> PdfObjectStream \<Rightarrow> (error + byte list) outcome" where
  "DecodeStream cs streamObj =
     (case NewEncoderFromStream cs streamObj of
        Panic e \<Rightarrow> Panic e
      | Returned (Inl err) \<Rightarrow> Returned (Inl err)
      | Returned (Inr encoder) \<Rightarrow> Returned (DecodeStream_of cs encoder streamObj))"

text \<open>
  The first step of \<open>EncodeStream\<close> after the selection: when the encoder is the LZW
  encoder, its \<open>EarlyChange\<close> field is set to 0 and the dictionary entry
  \<open>EarlyChange\<close> is set to the Integer 0. The result is the encoder that goes on to
  encode, and the stream object as it is at that point.
\<close>

definition forceEarlyChange ::
  "'p StreamEncoder \<Rightarrow> PdfObjectStream \<Rightarrow> 'p StreamEncoder \<times> PdfObjectStream" where
  "forceEarlyChange encoder streamObj =
     (case encoder of
        LZWEnc lzwenc \<Rightarrow>
          (LZWEnc (lzwenc\<lparr>EarlyChange := 0\<rparr>),
           streamObj\<lparr>PdfObjectDictionary :=
             Dictionary_Set (PdfObjectDictionary streamObj) ''EarlyChange'' (MakeInteger 0)\<rparr>)
      | _ \<Rightarrow> (encoder, streamObj))"

text \<open>
  \<open>EncodeStream\<close> returns the stream object as the call leaves it, together with what
  the call itself does: it panics (inside the selection), returns an error
  (\<open>Returned (Some err)\<close>) or returns nil (\<open>Returned None\<close>).
\<close>

definition EncodeStream ::
  "'p Codecs \<Rightarrow> PdfObjectStream \<Rightarrow> PdfObjectStream \<times> error option outcome" where
  "EncodeStream cs streamObj =
     (case NewEncoderFromStream cs streamObj of
        Panic e \<Rightarrow> (streamObj, Panic e)
      | Returned (Inl err) \<Rightarrow> (streamObj, Returned (Some err))
      | Returned (Inr encoder) \<Rightarrow>
          (let (encoder', streamObj') = forceEarlyChange encoder streamObj in
           case EncodeBytes cs encoder' (Stream streamObj') of
             Inl err \<Rightarrow> (streamObj', Returned (Some err))
           | Inr encoded \<Rightarrow>
               (streamObj'\<lparr>Stream := encoded,
                  PdfObjectDictionary :=
                    Dictionary_Set (PdfObjectDictionary streamObj') ''Length''
                      (MakeInteger (int (length encoded)))\<rparr>,
                Returned None)))"

section \<open>Positional reader\<close>

text \<open>
  The parser holds a seekable source \<open>rs\<close> (an \<open>io.ReadSeeker\<close>) and a buffered reader
  \<open>reader\<close> (a \<open>bufio.Reader\<close>) over that same source. Both belong to Go's standard
  library; they are modelled after their documented behaviour.

  The source is a sequence of bytes with a position. One \<open>Read\<close> call may deliver fewer
  bytes than asked for: \<open>rs_chunk\<close> is the most one call delivers.
\<close>

record ReadSeeker =
  rs_data :: "byte list"
  rs_pos :: nat
  rs_chunk :: nat

datatype whence = SEEK_SET | SEEK_CUR | SEEK_END

text \<open>
  \<open>Read\<close> into a slice of length \<open>k\<close>: at or past the end it returns no byte and the
  error \<open>EOF\<close>; otherwise the next bytes, at most \<open>k\<close> and at most \<open>rs_chunk\<close>, and no
  error.
\<close>

definition source_Read :: "nat \<Rightarrow> ReadSeeker \<Rightarrow> (byte list \<times> error option) \<times> ReadSeeker" where
  "source_Read k s =
     (if length (rs_data s) \<le> rs_pos s then (([], Some ''EOF''), s)
      else
        (let n = min k (min (rs_chunk s) (length (rs_data s) - rs_pos s)) in
         ((take n (drop (rs_pos s) (rs_data s)), None), s\<lparr>rs_pos := rs_pos s + n\<rparr>)))"

text \<open>
  \<open>Seek\<close>: the new position is counted from the start, the current position or the
  end. A negative position is refused: the call returns 0 and an error and the position
  stays where it was. A position past the end is accepted.
\<close>

definition source_Seek :: "int \<Rightarrow> whence \<Rightarrow> ReadSeeker \<Rightarrow> (int \<times> error option) \<times> ReadSeeker" where
  "source_Seek offset w s =
     (let abs_pos = (case w of
                       SEEK_SET \<Rightarrow> offset
                     | SEEK_CUR \<Rightarrow> int (rs_pos s) + offset
                     | SEEK_END \<Rightarrow> int (length (rs_data s)) + offset) in
      if abs_pos < 0 then ((0, Some ''negative position''), s)
      else ((abs_pos, None), s\<lparr>rs_pos := nat abs_pos\<rparr>))"

text \<open>
  The buffered reader: the size of its internal buffer, the bytes read ahead from the
  source and not yet handed out, and the error of the source it still has to report.
\<close>

record bufio_Reader =
  buf_size :: nat
  buffered :: "byte list"
  rd_err :: "error option"



definition Buffered :: "bufio_Reader \<Rightarrow> nat" where
  "Buffered b = length (buffered b)"

record PdfParser =
  rs :: ReadSeeker
  reader :: bufio_Reader

text \<open>
  \<open>reader.Read(p)\<close> with \<open>n = len(p)\<close>, on the parser's source. With an empty slice it
  returns nothing (and the pending error when nothing is buffered). With an empty buffer
  it reads from the source once: straight into \<open>p\<close> when \<open>p\<close> is at least as large as
  the internal buffer, into the internal buffer otherwise. Then it hands out what is
  buffered, at most \<open>n\<close> bytes. A pending error is reported once and cleared.
\<close>

definition bufio_Read :: "nat \<Rightarrow> PdfParser \<Rightarrow> (byte list \<times> error option) \<times> PdfParser" where
  "bufio_Read n this =
     (let b = reader this in
      if n = 0 then
        (if buffered b \<noteq> [] then (([], None), this)
         else (([], rd_err b), this\<lparr>reader := b\<lparr>rd_err := None\<rparr>\<rparr>))
      else if buffered b = [] then
        (if rd_err b \<noteq> None then (([], rd_err b), this\<lparr>reader := b\<lparr>rd_err := None\<rparr>\<rparr>)
         else if buf_size b \<le> n then
           (let ((bs, e), rs') = source_Read n (rs this) in
            ((bs, e), this\<lparr>rs := rs'\<rparr>))
         else
           (let ((bs, e), rs') = source_Read (buf_size b) (rs this) in
            if bs = [] then (([], e), this\<lparr>rs := rs'\<rparr>)
            else ((take n bs, None),
                  this\<lparr>rs := rs', reader := b\<lparr>buffered := drop n bs, rd_err := e\<rparr>\<rparr>)))
      else ((take n (buffered b), None),
            this\<lparr>reader := b\<lparr>buffered := drop n (buffered b)\<rparr>\<rparr>))"

text \<open>
  \<open>GetFileOffset\<close>: the position of the source (the error of \<open>Seek\<close> is dropped, its
  count used as it is) minus the number of buffered bytes.
\<close>

definition GetFileOffset :: "PdfParser \<Rightarrow> int \<times> PdfParser" where
  "GetFileOffset this =
     (let ((offset, _), rs') = source_Seek 0 SEEK_CUR (rs this) in
      (offset - int (Buffered (reader this)), this\<lparr>rs := rs'\<rparr>))"


text \<open>
  The loop of \<open>ReadAtLeast\<close>. Each round reads into \<open>p[start:]\<close>, a slice of
  \<open>len(p) - start\<close> bytes, and so may obtain more than \<open>remaining\<close> bytes. The bytes
  read are stored in \<open>p\<close> from index \<open>start\<close> on. An error of the reader ends the call
  with the count \<open>start\<close> and the error \<open>Failed reading\<close>. The loop has no bound of its
  own: a call that never returns is \<open>None\<close>. A read delivers at most as many bytes as its
  slice holds, so \<open>start\<close> never exceeds \<open>len(p)\<close> and the slice expression is always in
  range. (\<open>numRounds\<close> is only logged.)
\<close>

partial_function (option) ReadAtLeast_loop ::
  "byte list \<Rightarrow> int \<Rightarrow> nat \<Rightarrow> PdfParser \<Rightarrow> ((byte list \<times> nat \<times> error option) \<times> PdfParser) option" where
  "ReadAtLeast_loop p remaining start this =
     (if 0 < remaining then
        (case bufio_Read (length p - start) this of
           ((bs, err), this') \<Rightarrow>
             (let p' = take start p @ bs @ drop (start + length bs) p in
              if err \<noteq> None then Some ((p', start, Some ''Failed reading''), this')
              else ReadAtLeast_loop p' (remaining - int (length bs)) (start + length bs) this'))
      else Some ((p, start, None), this))"

declare ReadAtLeast_loop.simps [code]

definition ReadAtLeast ::
  "byte list \<Rightarrow> int \<Rightarrow> PdfParser \<Rightarrow> ((byte list \<times> nat \<times> error option) \<times> PdfParser) option" where
  "ReadAtLeast p n this = ReadAtLeast_loop p n 0 this"


text \<open>
  The buffered bytes are a window of the source that ends at the source's position:
  they are the bytes just before it. A new reader (its buffer is empty) is in this state,
  and reading keeps it.
\<close>

definition window :: "byte list \<Rightarrow> nat \<Rightarrow> byte list \<Rightarrow> bool" where
  "window b pos data \<longleftrightarrow> length b \<le> pos \<and> b = take (length b) (drop (pos - length b) data)"

definition coherent :: "PdfParser \<Rightarrow> bool" where
  "coherent this \<longleftrightarrow> window (buffered (reader this)) (rs_pos (rs this)) (rs_data (rs this))"

section \<open>Cross-reference index and reference resolution\<close>

text \<open>
  Modelled from the spec: the cross-reference index, \<open>Trace\<close> and \<open>ParseIndirectObject\<close>
  are not among the source files (only fuzz regression tests that call them are). A
  cross-reference entry is free, a byte offset of the object's header, or a locator into
  an object stream (object-stream number and index).
\<close>

datatype XrefObject =
    XREF_FREE
  | XREF_TABLE_ENTRY int
  | XREF_OBJECT_STREAM int int

type_synonym XrefTable = "(int \<times> XrefObject) list"

text \<open>
  Modelled from the spec: the tokenizer that parses one indirect object at a position is
  an external collaborator. What it finds is given with the document: at an offset, an
  indirect object with its object number that is either a plain value or a stream
  dictionary followed by the bytes after the \<open>stream\<close> keyword; in an object stream, a
  value at an index. Nothing parseable at a place is \<open>None\<close>.
\<close>

datatype IndirectSource =
    IndirectValue int PdfObject
  | IndirectStream int Dictionary "byte list"

record Document =
  at_offset :: "int \<Rightarrow> IndirectSource option"
  in_object_stream :: "int \<Rightarrow> int \<Rightarrow> PdfObject option"

text \<open>
  Modelled from the spec: the end of a stream's parse, not among the source files. The
  resolved \<open>Length\<close> must be an Integer that the payload can satisfy; the stream object
  holds that many bytes.
\<close>

definition finishStream :: "Dictionary \<Rightarrow> byte list \<Rightarrow> PdfObject \<Rightarrow> error + PdfObject" where
  "finishStream dict raw len =
     (case len of
        PdfObjectInteger l \<Rightarrow>
          (if 0 \<le> l \<and> nat l \<le> length raw
           then Inr (PdfObjectStreamValue dict (take (nat l) raw))
           else Inl ''Invalid stream length'')
      | _ \<Rightarrow> Inl ''Stream length needs to be an integer'')"

text \<open>
  Modelled from the spec: the parse of one indirect object at a position, with the
  in-flight resolution set of the call chain, not among the source files. A stream whose
  \<open>Length\<close> is a Reference resolves it first: an object number already in the set is the
  cycle condition and fails at once; otherwise the number is recorded and the reference
  followed (an absent or free entry, or a target that cannot be located, is Null).
\<close>

function ParseIndirectObjectAt ::
  "XrefTable \<Rightarrow> Document \<Rightarrow> int set \<Rightarrow> int \<Rightarrow> error + PdfObject" where
  "ParseIndirectObjectAt xrefs doc inflight pos =
     (case at_offset doc pos of
        None \<Rightarrow> Inl ''No indirect object at this position''
      | Some (IndirectValue num v) \<Rightarrow> Inr v
      | Some (IndirectStream num dict raw) \<Rightarrow>
          (case Dictionary_Get dict ''Length'' of
             None \<Rightarrow> Inl ''Stream without Length''
           | Some (PdfObjectReference n g) \<Rightarrow>
               (if n \<in> inflight then Inl ''Circular length reference''
                else
                  (case map_of xrefs n of
                     Some (XREF_TABLE_ENTRY target) \<Rightarrow>
                       (case at_offset doc target of
                          None \<Rightarrow> finishStream dict raw PdfObjectNull
                        | Some _ \<Rightarrow>
                            (case ParseIndirectObjectAt xrefs doc (insert n inflight) target of
                               Inl err \<Rightarrow> Inl err
                             | Inr len \<Rightarrow> finishStream dict raw len))
                   | Some (XREF_OBJECT_STREAM sn idx) \<Rightarrow>
                       (case in_object_stream doc sn idx of
                          None \<Rightarrow> finishStream dict raw PdfObjectNull
                        | Some len \<Rightarrow> finishStream dict raw len)
                   | _ \<Rightarrow> finishStream dict raw PdfObjectNull))
           | Some len \<Rightarrow> finishStream dict raw len))"
  by pat_completeness auto
termination
proof (relation "measure (\<lambda>(xrefs, doc, inflight, pos). card (fst ` set xrefs - inflight))")
  show "wf (measure (\<lambda>(xrefs, doc, inflight, pos). card (fst ` set xrefs - inflight)))"
    by simp
next
  fix xrefs :: XrefTable and doc :: Document and inflight :: "int set" and pos :: int
    and n :: int and x :: XrefObject and target :: int
  assume "n \<notin> inflight" and "map_of xrefs n = Some x"
  then have mem: "n \<in> fst ` set xrefs - inflight"
    by (auto dest: map_of_SomeD intro: rev_image_eqI)
  have fin: "finite (fst ` set xrefs - inflight)" by simp
  have eq: "fst ` set xrefs - insert n inflight = (fst ` set xrefs - inflight) - {n}"
    by auto
  have "card (fst ` set xrefs - insert n inflight) < card (fst ` set xrefs - inflight)"
    unfolding eq by (rule card_Diff1_less[OF fin mem])
  then show "((xrefs, doc, insert n inflight, target), (xrefs, doc, inflight, pos))
        \<in> measure (\<lambda>(xrefs, doc, inflight, pos). card (fst ` set xrefs - inflight))"
    by simp
qed

text \<open>
  Modelled from the spec: the top-level parse of one indirect object, not among the
  source files. Its in-flight resolution set starts empty and ends with the call.
\<close>

definition ParseIndirectObject :: "XrefTable \<Rightarrow> Document \<Rightarrow> int \<Rightarrow> error + PdfObject" where
  "ParseIndirectObject xrefs doc pos = ParseIndirectObjectAt xrefs doc {} pos"

text \<open>
  Modelled from the spec: \<open>Trace\<close> (the resolver), not among the source files. A value
  that is not a Reference is returned unchanged. A Reference whose object number is
  absent from the index or free, or whose target cannot be located, is Null with no
  error. Otherwise the one indirect object at the recorded location is parsed and its
  value returned.
\<close>

definition Trace :: "XrefTable \<Rightarrow> Document \<Rightarrow> PdfObject \<Rightarrow> error + PdfObject" where
  "Trace xrefs doc obj =
     (case obj of
        PdfObjectReference n g \<Rightarrow>
          (case map_of xrefs n of
             None \<Rightarrow> Inr PdfObjectNull
           | Some XREF_FREE \<Rightarrow> Inr PdfObjectNull
           | Some (XREF_TABLE_ENTRY target) \<Rightarrow>
               (case at_offset doc target of
                  None \<Rightarrow> Inr PdfObjectNull
                | Some _ \<Rightarrow> ParseIndirectObject xrefs doc target)
           | Some (XREF_OBJECT_STREAM sn idx) \<Rightarrow>
               (case in_object_stream doc sn idx of
                  None \<Rightarrow> Inr PdfObjectNull
                | Some v \<Rightarrow> Inr v))
      | _ \<Rightarrow> Inr obj)"

section \<open>Concrete inputs\<close>

text \<open>
  A small codec boundary for the concrete examples, its opaque parameter being the LZW
  predictor that the stream's decode parameters give. The Raw encoder returns the bytes
  as they are; the LZW encoder refuses a predictor other than 1 and an early change of 1,
  and otherwise stands in with the bytes as they are.
\<close>

definition demo_codecs :: "int \<Rightarrow> int Codecs" where
  "demo_codecs predictor =
     \<lparr>newFlateEncoderFromStream = (\<lambda>_. Inr 1),
      newLZWEncoderFromStream = (\<lambda>_. Inr \<lparr>EarlyChange = 1, lzw_params = predictor\<rparr>),
      newDCTEncoderFromStream = (\<lambda>_. Inl ''Invalid DCT stream''),
      newRunLengthEncoderFromStream = (\<lambda>_. Inr 1),
      newMultiEncoderFromStream = (\<lambda>_. Inl ''Unsupported filter in multi filter array''),
      EncodeBytes = (\<lambda>encoder data.
        case encoder of
          RawEncoder \<Rightarrow> Inr data
        | LZWEnc lzwenc \<Rightarrow>
            (if lzw_params lzwenc \<noteq> 1 then Inl ''LZW Predictor = 1 only supported yet''
             else if EarlyChange lzwenc = 1 then Inl ''LZW Early Change = 0 only supported yet''
             else Inr data)
        | _ \<Rightarrow> Inl ''Encoding not supported''),
      DecodeStream_of = (\<lambda>encoder streamObj. Inr (Stream streamObj))\<rparr>"

definition raw_stream :: PdfObjectStream where
  "raw_stream = \<lparr>PdfObjectDictionary = [(''Length'', PdfObjectInteger 99)], Stream = [1, 2, 3]\<rparr>"

definition lzw_stream :: PdfObjectStream where
  "lzw_stream =
     \<lparr>PdfObjectDictionary =
        [(''Filter'', PdfObjectName ''LZWDecode''), (''EarlyChange'', PdfObjectInteger 1),
         (''Length'', PdfObjectInteger 3)],
      Stream = [1, 2, 3]\<rparr>"

definition foo_stream :: PdfObjectStream where
  "foo_stream = \<lparr>PdfObjectDictionary = [(''Filter'', PdfObjectName ''Foo'')], Stream = []\<rparr>"

definition filter_stream :: "PdfObject \<Rightarrow> PdfObjectStream" where
  "filter_stream f = \<lparr>PdfObjectDictionary = [(''Filter'', f)], Stream = [7]\<rparr>"

text \<open>
  A parser over the five bytes 1..5 whose source delivers at most two bytes per read,
  with a new reader of buffer size 16, at position \<open>pos\<close>.
\<close>

definition demo_parser :: "nat \<Rightarrow> PdfParser" where
  "demo_parser pos =
     \<lparr>rs = \<lparr>rs_data = [1, 2, 3, 4, 5], rs_pos = pos, rs_chunk = 2\<rparr>,
      reader = \<lparr>buf_size = 16, buffered = [], rd_err = None\<rparr>\<rparr>"

text \<open>
  The documents of the two self-reference regressions: at offset 0 stands object 13, a
  stream whose \<open>Length\<close> is the reference \<open>n 0 R\<close>.
\<close>

definition self_reference_doc :: "int \<Rightarrow> Document" where
  "self_reference_doc n =
     \<lparr>at_offset = (\<lambda>pos. if pos = 0
          then Some (IndirectStream 13 [(''Length'', PdfObjectReference n 0)] [120, 120, 120])
          else None),
      in_object_stream = (\<lambda>sn idx. None)\<rparr>"

section \<open>Lemmas: dictionaries and selection\<close>

lemmas filter_names = StreamEncodingFilterNameFlate_def StreamEncodingFilterNameLZW_def
  StreamEncodingFilterNameDCT_def StreamEncodingFilterNameRunLength_def
  StreamEncodingFilterNameASCIIHex_def StreamEncodingFilterNameASCII85_def
  StreamEncodingFilterNameCCITTFax_def StreamEncodingFilterNameJBIG2_def
  StreamEncodingFilterNameJPX_def

lemma Dictionary_Get_Set_same: "Dictionary_Get (Dictionary_Set d k v) k = Some v"
  by (simp add: Dictionary_Get_def Dictionary_Set_def update_conv')

lemma Dictionary_Get_Set_other:
  "k' \<noteq> k \<Longrightarrow> Dictionary_Get (Dictionary_Set d k v) k' = Dictionary_Get d k'"
  by (simp add: Dictionary_Get_def Dictionary_Set_def update_conv')

lemma encoderForMethod_cong:
  assumes "newFlateEncoderFromStream cs s1 = newFlateEncoderFromStream cs s2"
    and "newLZWEncoderFromStream cs s1 = newLZWEncoderFromStream cs s2"
    and "newDCTEncoderFromStream cs s1 = newDCTEncoderFromStream cs s2"
    and "newRunLengthEncoderFromStream cs s1 = newRunLengthEncoderFromStream cs s2"
  shows "encoderForMethod cs s1 m = encoderForMethod cs s2 m"
  using assms by (simp add: encoderForMethod_def)

lemma NewEncoderFromStream_absent:
  "Dictionary_Get (PdfObjectDictionary s) ''Filter'' = None \<Longrightarrow>
     NewEncoderFromStream cs s = Returned (Inr RawEncoder)"
  by (simp add: NewEncoderFromStream_def)

lemma NewEncoderFromStream_null:
  "Dictionary_Get (PdfObjectDictionary s) ''Filter'' = Some PdfObjectNull \<Longrightarrow>
     NewEncoderFromStream cs s = Returned (Inr RawEncoder)"
  by (simp add: NewEncoderFromStream_def)

lemma NewEncoderFromStream_empty_array:
  "Dictionary_Get (PdfObjectDictionary s) ''Filter'' = Some (PdfObjectArray []) \<Longrightarrow>
     NewEncoderFromStream cs s = Returned (Inr RawEncoder)"
  by (simp add: NewEncoderFromStream_def)

lemma NewEncoderFromStream_name:
  "Dictionary_Get (PdfObjectDictionary s) ''Filter'' = Some (PdfObjectName m) \<Longrightarrow>
     NewEncoderFromStream cs s = encoderForMethod cs s m"
  by (simp add: NewEncoderFromStream_def)

lemma NewEncoderFromStream_single_name:
  "Dictionary_Get (PdfObjectDictionary s) ''Filter'' = Some (PdfObjectArray [PdfObjectName m]) \<Longrightarrow>
     NewEncoderFromStream cs s = encoderForMethod cs s m"
  by (simp add: NewEncoderFromStream_def)

lemma NewEncoderFromStream_single_other:
  assumes "Dictionary_Get (PdfObjectDictionary s) ''Filter'' = Some (PdfObjectArray [x])"
    and "\<forall>m. x \<noteq> PdfObjectName m"
  shows "NewEncoderFromStream cs s = Returned (Inl ''Filter array member not a Name object'')"
  using assms by (cases x) (simp_all add: NewEncoderFromStream_def)

lemma encoderForMethod_unsupported:
  "method \<notin> set supported_filter_names \<Longrightarrow>
     encoderForMethod cs s method = Panic (''Unsupported encoding method ('' @ method @ '')'')"
  by (simp add: encoderForMethod_def supported_filter_names_def)

lemma Foo_unsupported: "''Foo'' \<notin> set supported_filter_names"
  by (simp add: supported_filter_names_def filter_names)

lemma EncodeStream_lzw_failing:
  "EncodeStream (demo_codecs 2) lzw_stream =
     (\<lparr>PdfObjectDictionary =
         [(''Filter'', PdfObjectName ''LZWDecode''), (''EarlyChange'', PdfObjectInteger 0),
          (''Length'', PdfObjectInteger 3)],
       Stream = [1, 2, 3]\<rparr>,
      Returned (Some ''LZW Predictor = 1 only supported yet''))"
  by (simp add: EncodeStream_def NewEncoderFromStream_def Dictionary_Get_def encoderForMethod_def
      filter_names demo_codecs_def wrap_def forceEarlyChange_def Dictionary_Set_def MakeInteger_def
      lzw_stream_def)

lemma NewEncoderFromStream_lzw:
  "NewEncoderFromStream (demo_codecs p) lzw_stream =
     Returned (Inr (LZWEnc \<lparr>EarlyChange = 1, lzw_params = p\<rparr>))"
  by (simp add: NewEncoderFromStream_def Dictionary_Get_def encoderForMethod_def
      filter_names demo_codecs_def wrap_def lzw_stream_def)

lemma EncodeStream_raw:
  "EncodeStream (demo_codecs 1) raw_stream =
     (\<lparr>PdfObjectDictionary = [(''Length'', PdfObjectInteger 3)], Stream = [1, 2, 3]\<rparr>,
      Returned None)"
  by (simp add: EncodeStream_def NewEncoderFromStream_def Dictionary_Get_def
      demo_codecs_def forceEarlyChange_def Dictionary_Set_def MakeInteger_def raw_stream_def)

section \<open>Lemmas: the positional reader\<close>

lemma GetFileOffset_eq:
  "GetFileOffset this = (int (rs_pos (rs this)) - int (length (buffered (reader this))), this)"
  by (simp add: GetFileOffset_def source_Seek_def Buffered_def)















lemma coherent_offset_nonneg: "coherent this \<Longrightarrow> 0 \<le> fst (GetFileOffset this)"
  by (simp add: coherent_def window_def GetFileOffset_eq)












lemma loop_stuck:
  assumes "ReadAtLeast_loop p remaining start this = Some y"
  shows "\<not> (length p \<le> start \<and> 0 < remaining \<and> rd_err (reader this) = None)"
  using assms
proof (induction rule: ReadAtLeast_loop.raw_induct[rotated 1, consumes 1, case_names step])
  case 1: (step loop p remaining start this y)
  show ?case
  proof
    assume c: "length p \<le> start \<and> 0 < remaining \<and> rd_err (reader this) = None"
    have "\<exists>t1. bufio_Read (length p - start) this = (([], None), t1)
            \<and> rd_err (reader t1) = None"
      using c by (cases "buffered (reader this) = []") (simp_all add: bufio_Read_def Let_def)
    then obtain t1 where r: "bufio_Read (length p - start) this = (([], None), t1)"
      and e: "rd_err (reader t1) = None"
      by blast
    from 1(2) c r have "loop p remaining start t1 = Some y"
      by (simp add: Let_def)
    from 1(1)[OF this] c e show False by simp
  qed
qed

lemma ReadAtLeast_short_buffer: "ReadAtLeast [0, 0] 3 (demo_parser 0) = None"
proof -
  define T where "T = \<lparr>rs = \<lparr>rs_data = [1, 2, 3, 4, 5 :: byte], rs_pos = 2, rs_chunk = 2\<rparr>,
                       reader = \<lparr>buf_size = 16, buffered = [], rd_err = None\<rparr>\<rparr>"
  have "ReadAtLeast [0, 0] 3 (demo_parser 0) = ReadAtLeast_loop [1, 2] 1 2 T"
    unfolding ReadAtLeast_def demo_parser_def T_def
    by (subst ReadAtLeast_loop.simps)
      (simp add: bufio_Read_def source_Read_def Let_def eval_nat_numeral)
  moreover have "ReadAtLeast_loop [1, 2] 1 2 T = None"
  proof (cases "ReadAtLeast_loop [1, 2] 1 2 T")
    case None
    then show ?thesis .
  next
    case (Some y)
    from loop_stuck[OF Some] show ?thesis by (simp add: T_def)
  qed
  ultimately show ?thesis by simp
qed

section \<open>The claims\<close>

subsection \<open>Filter selection\<close>

text \<open>
  C1. A stream whose \<open>Filter\<close> has a recognized shape (a bare Name, or a one-element
  array containing a Name) but names none of the nine supported filters: the claim is
  that \<open>NewEncoderFromStream\<close> returns an error to its caller and does not panic. The
  code does the opposite. The last branch of the conditional chain calls \<open>panic(err)\<close>
  before its \<open>return nil, err\<close>, so the call panics with the message
  \<open>Unsupported encoding method (name)\<close>, and so do \<open>DecodeStream\<close> and \<open>EncodeStream\<close>,
  which call it (the stream object being untouched).
\<close>

theorem C1_unsupported_filter_panics:
  assumes "method \<notin> set supported_filter_names"
    and "Dictionary_Get (PdfObjectDictionary streamObj) ''Filter'' = Some (PdfObjectName method)
       \<or> Dictionary_Get (PdfObjectDictionary streamObj) ''Filter''
            = Some (PdfObjectArray [PdfObjectName method])"
  shows "NewEncoderFromStream cs streamObj
           = Panic (''Unsupported encoding method ('' @ method @ '')'')
       \<and> DecodeStream cs streamObj = Panic (''Unsupported encoding method ('' @ method @ '')'')
       \<and> EncodeStream cs streamObj
           = (streamObj, Panic (''Unsupported encoding method ('' @ method @ '')''))"
proof -
  from assms(2) have "NewEncoderFromStream cs streamObj = encoderForMethod cs streamObj method"
    by (auto simp: NewEncoderFromStream_name NewEncoderFromStream_single_name)
  with encoderForMethod_unsupported[OF assms(1)]
  have "NewEncoderFromStream cs streamObj
          = Panic (''Unsupported encoding method ('' @ method @ '')'')"
    by simp
  then show ?thesis by (simp add: DecodeStream_def EncodeStream_def)
qed

theorem C1_unsupported_filter_panics_witness:
  "''Foo'' \<notin> set supported_filter_names
 \<and> Dictionary_Get (PdfObjectDictionary foo_stream) ''Filter'' = Some (PdfObjectName ''Foo'')
 \<and> NewEncoderFromStream (demo_codecs 1) foo_stream = Panic ''Unsupported encoding method (Foo)''
 \<and> DecodeStream (demo_codecs 1) foo_stream = Panic ''Unsupported encoding method (Foo)''
 \<and> EncodeStream (demo_codecs 1) foo_stream
      = (foo_stream, Panic ''Unsupported encoding method (Foo)'')"
proof -
  have g: "Dictionary_Get (PdfObjectDictionary foo_stream) ''Filter'' = Some (PdfObjectName ''Foo'')"
    by (simp add: foo_stream_def Dictionary_Get_def)
  from C1_unsupported_filter_panics[OF Foo_unsupported disjI1[OF g], of "demo_codecs 1"] g
    Foo_unsupported
  show ?thesis by simp
qed

text \<open>
  C7. The decision table of the selection. A \<open>Filter\<close> entry that is absent, the Null
  value or an empty array gives the Raw encoder and no error. A one-element array
  containing a Name and the bare Name of the same value both give what the conditional
  chain on that name gives for the stream; so two streams that carry the one and the
  other, and on which the constructors that read a filter's own parameters agree, get
  the same result. A one-element array whose member is not a Name gives the error
  \<open>Filter array member not a Name object\<close>.
\<close>

theorem C7_selection_table:
  "(Dictionary_Get (PdfObjectDictionary s) ''Filter'' = None \<longrightarrow>
      NewEncoderFromStream cs s = Returned (Inr RawEncoder))
 \<and> (Dictionary_Get (PdfObjectDictionary s) ''Filter'' = Some PdfObjectNull \<longrightarrow>
      NewEncoderFromStream cs s = Returned (Inr RawEncoder))
 \<and> (Dictionary_Get (PdfObjectDictionary s) ''Filter'' = Some (PdfObjectArray []) \<longrightarrow>
      NewEncoderFromStream cs s = Returned (Inr RawEncoder))
 \<and> (Dictionary_Get (PdfObjectDictionary s) ''Filter'' = Some (PdfObjectArray [PdfObjectName m]) \<longrightarrow>
      NewEncoderFromStream cs s = encoderForMethod cs s m)
 \<and> (Dictionary_Get (PdfObjectDictionary s) ''Filter'' = Some (PdfObjectName m) \<longrightarrow>
      NewEncoderFromStream cs s = encoderForMethod cs s m)
 \<and> (Dictionary_Get (PdfObjectDictionary s1) ''Filter'' = Some (PdfObjectArray [PdfObjectName m]) \<and>
    Dictionary_Get (PdfObjectDictionary s2) ''Filter'' = Some (PdfObjectName m) \<and>
    newFlateEncoderFromStream cs s1 = newFlateEncoderFromStream cs s2 \<and>
    newLZWEncoderFromStream cs s1 = newLZWEncoderFromStream cs s2 \<and>
    newDCTEncoderFromStream cs s1 = newDCTEncoderFromStream cs s2 \<and>
    newRunLengthEncoderFromStream cs s1 = newRunLengthEncoderFromStream cs s2 \<longrightarrow>
      NewEncoderFromStream cs s1 = NewEncoderFromStream cs s2)
 \<and> (Dictionary_Get (PdfObjectDictionary s) ''Filter'' = Some (PdfObjectArray [x]) \<and>
    (\<forall>n. x \<noteq> PdfObjectName n) \<longrightarrow>
      NewEncoderFromStream cs s = Returned (Inl ''Filter array member not a Name object''))"
proof -
  have "NewEncoderFromStream cs s1 = NewEncoderFromStream cs s2"
    if "Dictionary_Get (PdfObjectDictionary s1) ''Filter'' = Some (PdfObjectArray [PdfObjectName m])"
      and "Dictionary_Get (PdfObjectDictionary s2) ''Filter'' = Some (PdfObjectName m)"
      and "newFlateEncoderFromStream cs s1 = newFlateEncoderFromStream cs s2"
      and "newLZWEncoderFromStream cs s1 = newLZWEncoderFromStream cs s2"
      and "newDCTEncoderFromStream cs s1 = newDCTEncoderFromStream cs s2"
      and "newRunLengthEncoderFromStream cs s1 = newRunLengthEncoderFromStream cs s2"
    using that
    by (simp add: NewEncoderFromStream_name NewEncoderFromStream_single_name
        encoderForMethod_cong[of cs s1 s2 m])
  then show ?thesis
    by (simp add: NewEncoderFromStream_absent NewEncoderFromStream_null
        NewEncoderFromStream_empty_array NewEncoderFromStream_name
        NewEncoderFromStream_single_name NewEncoderFromStream_single_other)
qed

theorem C7_selection_table_witness:
  "NewEncoderFromStream (demo_codecs 1) raw_stream = Returned (Inr RawEncoder)
 \<and> NewEncoderFromStream (demo_codecs 1) (filter_stream PdfObjectNull) = Returned (Inr RawEncoder)
 \<and> NewEncoderFromStream (demo_codecs 1) (filter_stream (PdfObjectArray []))
      = Returned (Inr RawEncoder)
 \<and> NewEncoderFromStream (demo_codecs 1)
      (filter_stream (PdfObjectArray [PdfObjectName ''LZWDecode'']))
    = NewEncoderFromStream (demo_codecs 1) (filter_stream (PdfObjectName ''LZWDecode''))
 \<and> NewEncoderFromStream (demo_codecs 1) (filter_stream (PdfObjectName ''LZWDecode''))
    = Returned (Inr (LZWEnc \<lparr>EarlyChange = 1, lzw_params = 1\<rparr>))
 \<and> NewEncoderFromStream (demo_codecs 1) (filter_stream (PdfObjectArray [PdfObjectInteger 5]))
      = Returned (Inl ''Filter array member not a Name object'')"
proof -
  let ?cs = "demo_codecs 1"
  have g: "Dictionary_Get (PdfObjectDictionary (filter_stream f)) ''Filter'' = Some f" for f
    by (simp add: filter_stream_def Dictionary_Get_def)
  have r: "Dictionary_Get (PdfObjectDictionary raw_stream) ''Filter'' = None"
    by (simp add: raw_stream_def Dictionary_Get_def)
  have c: "newFlateEncoderFromStream ?cs s1 = newFlateEncoderFromStream ?cs s2"
    "newLZWEncoderFromStream ?cs s1 = newLZWEncoderFromStream ?cs s2"
    "newDCTEncoderFromStream ?cs s1 = newDCTEncoderFromStream ?cs s2"
    "newRunLengthEncoderFromStream ?cs s1 = newRunLengthEncoderFromStream ?cs s2" for s1 s2
    by (simp_all add: demo_codecs_def)
  have e: "encoderForMethod ?cs s ''LZWDecode'' = Returned (Inr (LZWEnc \<lparr>EarlyChange = 1, lzw_params = 1\<rparr>))"
    for s
    by (simp add: encoderForMethod_def filter_names demo_codecs_def wrap_def)
  from C7_selection_table[of raw_stream ?cs]
  have 1: "NewEncoderFromStream ?cs raw_stream = Returned (Inr RawEncoder)"
    using r by simp
  from C7_selection_table[of "filter_stream PdfObjectNull" ?cs]
  have 2: "NewEncoderFromStream ?cs (filter_stream PdfObjectNull) = Returned (Inr RawEncoder)"
    using g by simp
  from C7_selection_table[of "filter_stream (PdfObjectArray [])" ?cs]
  have 3: "NewEncoderFromStream ?cs (filter_stream (PdfObjectArray [])) = Returned (Inr RawEncoder)"
    using g by simp
  from C7_selection_table[of _ ?cs "''LZWDecode''"
      "filter_stream (PdfObjectArray [PdfObjectName ''LZWDecode''])"
      "filter_stream (PdfObjectName ''LZWDecode'')"]
  have 4: "NewEncoderFromStream ?cs (filter_stream (PdfObjectArray [PdfObjectName ''LZWDecode'']))
         = NewEncoderFromStream ?cs (filter_stream (PdfObjectName ''LZWDecode''))"
    using g c by simp
  from C7_selection_table[of "filter_stream (PdfObjectName ''LZWDecode'')" ?cs "''LZWDecode''"]
  have 5: "NewEncoderFromStream ?cs (filter_stream (PdfObjectName ''LZWDecode''))
         = Returned (Inr (LZWEnc \<lparr>EarlyChange = 1, lzw_params = 1\<rparr>))"
    using g e by simp
  from C7_selection_table[of "filter_stream (PdfObjectArray [PdfObjectInteger 5])" ?cs _ _ _
      "PdfObjectInteger 5"]
  have 6: "NewEncoderFromStream ?cs (filter_stream (PdfObjectArray [PdfObjectInteger 5]))
         = Returned (Inl ''Filter array member not a Name object'')"
    using g by simp
  from 1 2 3 4 5 6 show ?thesis by simp
qed

subsection \<open>Encoding\<close>

text \<open>
  C4. The claim is that a failed \<open>EncodeStream\<close> leaves the stream object as it was, with
  no change at all. That fails: when the selected encoder is the LZW encoder, the
  dictionary entry \<open>EarlyChange\<close> is set to 0 before \<open>EncodeBytes\<close> is called, and it stays
  set when \<open>EncodeBytes\<close> fails. Here the entry was 1 before the call, the encoder refuses
  its predictor, and the entry is 0 after the failed call.
\<close>

theorem C4_counterexample:
  "snd (EncodeStream (demo_codecs 2) lzw_stream)
     = Returned (Some ''LZW Predictor = 1 only supported yet'')
 \<and> fst (EncodeStream (demo_codecs 2) lzw_stream) \<noteq> lzw_stream
 \<and> Dictionary_Get (PdfObjectDictionary lzw_stream) ''EarlyChange'' = Some (PdfObjectInteger 1)
 \<and> Dictionary_Get (PdfObjectDictionary (fst (EncodeStream (demo_codecs 2) lzw_stream)))
      ''EarlyChange'' = Some (PdfObjectInteger 0)"
  by (simp add: EncodeStream_lzw_failing) (simp add: lzw_stream_def Dictionary_Get_def)

text \<open>
  C4, as amended. Whenever \<open>EncodeStream\<close> does not return nil (it returns an error or
  panics), the payload and the \<open>Length\<close> entry are unchanged, and the stream object is
  either unchanged altogether or, when the selected encoder is the LZW encoder, changed
  only in that its \<open>EarlyChange\<close> entry has been set to the Integer 0.
\<close>

theorem C4_failed_encode_frame:
  assumes "EncodeStream cs s = (s', r)" and "r \<noteq> Returned None"
  shows "Stream s' = Stream s
       \<and> Dictionary_Get (PdfObjectDictionary s') ''Length''
           = Dictionary_Get (PdfObjectDictionary s) ''Length''
       \<and> (s' = s
          \<or> (\<exists>lzwenc. NewEncoderFromStream cs s = Returned (Inr (LZWEnc lzwenc))) \<and>
            s' = s\<lparr>PdfObjectDictionary :=
                     Dictionary_Set (PdfObjectDictionary s) ''EarlyChange'' (MakeInteger 0)\<rparr>)"
  using assms
  by (auto simp: EncodeStream_def forceEarlyChange_def Dictionary_Get_Set_other
      split: outcome.splits sum.splits StreamEncoder.splits prod.splits)

theorem C4_failed_encode_frame_witness:
  "Stream (fst (EncodeStream (demo_codecs 2) lzw_stream)) = Stream lzw_stream
 \<and> Dictionary_Get (PdfObjectDictionary (fst (EncodeStream (demo_codecs 2) lzw_stream))) ''Length''
     = Dictionary_Get (PdfObjectDictionary lzw_stream) ''Length''
 \<and> fst (EncodeStream (demo_codecs 2) lzw_stream)
     = lzw_stream\<lparr>PdfObjectDictionary :=
         Dictionary_Set (PdfObjectDictionary lzw_stream) ''EarlyChange'' (MakeInteger 0)\<rparr>"
proof -
  have ne: "Returned (Some ''LZW Predictor = 1 only supported yet'') \<noteq> Returned None"
    by simp
  have neq: "fst (EncodeStream (demo_codecs 2) lzw_stream) \<noteq> lzw_stream"
    by (simp add: EncodeStream_lzw_failing) (simp add: lzw_stream_def)
  from C4_failed_encode_frame[OF EncodeStream_lzw_failing ne] neq
  show ?thesis by (auto simp: EncodeStream_lzw_failing)
qed

text \<open>
  C5. Whenever \<open>EncodeStream\<close> succeeds (returns nil), an encoder was selected, its
  \<open>EncodeBytes\<close> on the stream's payload returned the bytes that are now the stream's
  payload, and the dictionary's \<open>Length\<close> entry is the literal Integer equal to the
  number of bytes of that new payload.
\<close>

theorem C5_encode_success:
  assumes "EncodeStream cs s = (s', Returned None)"
  shows "\<exists>encoder encoded.
           NewEncoderFromStream cs s = Returned (Inr encoder)
         \<and> EncodeBytes cs (fst (forceEarlyChange encoder s)) (Stream s) = Inr encoded
         \<and> Stream s' = encoded
         \<and> Dictionary_Get (PdfObjectDictionary s') ''Length''
             = Some (PdfObjectInteger (int (length (Stream s'))))"
  using assms
  by (auto simp: EncodeStream_def forceEarlyChange_def Dictionary_Get_Set_same MakeInteger_def
      split: outcome.splits sum.splits StreamEncoder.splits prod.splits)

theorem C5_encode_success_witness:
  "EncodeStream (demo_codecs 1) raw_stream
     = (\<lparr>PdfObjectDictionary = [(''Length'', PdfObjectInteger 3)], Stream = [1, 2, 3]\<rparr>,
        Returned None)
 \<and> (\<exists>encoder encoded.
       NewEncoderFromStream (demo_codecs 1) raw_stream = Returned (Inr encoder)
     \<and> EncodeBytes (demo_codecs 1) (fst (forceEarlyChange encoder raw_stream)) (Stream raw_stream)
         = Inr encoded
     \<and> encoded = [1, 2, 3])
 \<and> Dictionary_Get [(''Length'', PdfObjectInteger 3)] ''Length'' = Some (PdfObjectInteger 3)"
  using C5_encode_success[OF EncodeStream_raw] EncodeStream_raw
  by (simp add: Dictionary_Get_def)

text \<open>
  C6. Whenever the selected encoder is the LZW encoder, \<open>EncodeStream\<close> encodes with
  that encoder's \<open>EarlyChange\<close> field set to 0 (the call returns what \<open>EncodeBytes\<close> of
  that encoder makes of the payload), and after the call the dictionary's
  \<open>EarlyChange\<close> entry is the literal Integer 0, whatever the entry was before and
  whether the encoding succeeds or not.
\<close>

theorem C6_lzw_early_change:
  assumes "NewEncoderFromStream cs s = Returned (Inr (LZWEnc lzwenc))"
  shows "fst (forceEarlyChange (LZWEnc lzwenc) s) = LZWEnc (lzwenc\<lparr>EarlyChange := 0\<rparr>)
       \<and> snd (EncodeStream cs s) =
           (case EncodeBytes cs (LZWEnc (lzwenc\<lparr>EarlyChange := 0\<rparr>)) (Stream s) of
              Inl err \<Rightarrow> Returned (Some err) | Inr encoded \<Rightarrow> Returned None)
       \<and> Dictionary_Get (PdfObjectDictionary (fst (EncodeStream cs s))) ''EarlyChange''
           = Some (PdfObjectInteger 0)"
  using assms
  by (auto simp: EncodeStream_def forceEarlyChange_def Dictionary_Get_Set_same
      Dictionary_Get_Set_other MakeInteger_def split: sum.splits)

theorem C6_lzw_early_change_witness:
  "NewEncoderFromStream (demo_codecs 1) lzw_stream
     = Returned (Inr (LZWEnc \<lparr>EarlyChange = 1, lzw_params = 1\<rparr>))
 \<and> Dictionary_Get (PdfObjectDictionary lzw_stream) ''EarlyChange'' = Some (PdfObjectInteger 1)
 \<and> snd (EncodeStream (demo_codecs 1) lzw_stream) = Returned None
 \<and> Dictionary_Get (PdfObjectDictionary (fst (EncodeStream (demo_codecs 1) lzw_stream)))
      ''EarlyChange'' = Some (PdfObjectInteger 0)
 \<and> snd (EncodeStream (demo_codecs 2) lzw_stream)
      = Returned (Some ''LZW Predictor = 1 only supported yet'')
 \<and> Dictionary_Get (PdfObjectDictionary (fst (EncodeStream (demo_codecs 2) lzw_stream)))
      ''EarlyChange'' = Some (PdfObjectInteger 0)"
  using C6_lzw_early_change[OF NewEncoderFromStream_lzw[of 1]]
    C6_lzw_early_change[OF NewEncoderFromStream_lzw[of 2]]
    NewEncoderFromStream_lzw[of 1]
  by (simp add: demo_codecs_def lzw_stream_def Dictionary_Get_def)

subsection \<open>Positional reader\<close>







subsection \<open>Reference resolution\<close>

text \<open>
  C2. An indirect stream object whose \<open>Length\<close> entry is a reference that leads back to
  the object being parsed: the reference's object number has a cross-reference entry
  whose offset is the position of that very object, be the number the stream's own or a
  different one that aliases the same position. The top-level parse of the object
  returns (the parse is a total function), and what it returns is the circular-reference
  error.
\<close>

theorem C2_circular_length_reference:
  assumes "at_offset doc pos = Some (IndirectStream num dict raw)"
    and "Dictionary_Get dict ''Length'' = Some (PdfObjectReference n g)"
    and "map_of xrefs n = Some (XREF_TABLE_ENTRY pos)"
  shows "ParseIndirectObject xrefs doc pos = Inl ''Circular length reference''"
proof -
  have inner: "ParseIndirectObjectAt xrefs doc (insert n {}) pos = Inl ''Circular length reference''"
    using assms by (subst ParseIndirectObjectAt.simps) simp
  show ?thesis
    unfolding ParseIndirectObject_def
    using assms inner by (subst ParseIndirectObjectAt.simps) simp
qed

theorem C2_circular_length_reference_witness:
  "ParseIndirectObject [(13, XREF_TABLE_ENTRY 0)] (self_reference_doc 13) 0
     = Inl ''Circular length reference''
 \<and> ParseIndirectObject [(12, XREF_TABLE_ENTRY 0)] (self_reference_doc 12) 0
     = Inl ''Circular length reference''"
proof -
  have a: "at_offset (self_reference_doc n) 0
             = Some (IndirectStream 13 [(''Length'', PdfObjectReference n 0)] [120, 120, 120])" for n
    by (simp add: self_reference_doc_def)
  have l: "Dictionary_Get [(''Length'', PdfObjectReference n 0)] ''Length''
             = Some (PdfObjectReference n 0)" for n
    by (simp add: Dictionary_Get_def)
  have x: "map_of [(n, XREF_TABLE_ENTRY 0)] n = Some (XREF_TABLE_ENTRY 0)" for n :: int
    by simp
  from C2_circular_length_reference[OF a l x, of 13] C2_circular_length_reference[OF a l x, of 12]
  show ?thesis by simp
qed

text \<open>
  C3. A Reference whose object number is absent from the cross-reference index, a
  negative number included, resolves to the Null object with no error.
\<close>

theorem C3_dangling_reference_is_null:
  assumes "n \<notin> fst ` set xrefs"
  shows "Trace xrefs doc (PdfObjectReference n g) = Inr PdfObjectNull"
proof -
  from assms have "map_of xrefs n = None" by (simp add: map_of_eq_None_iff)
  then show ?thesis by (simp add: Trace_def)
qed

theorem C3_dangling_reference_is_null_witness:
  "(- 1 :: int) \<notin> fst ` set ([] :: XrefTable)
 \<and> Trace [] (self_reference_doc 13) (PdfObjectReference (- 1) 0) = Inr PdfObjectNull"
  using C3_dangling_reference_is_null[of "- 1" "[]" "self_reference_doc 13" 0]
  by simp

end
